theory Spec2Isabelle
  imports Complex_Main
begin

text \<open>
  The class \<open>AsianOptionMC\<close> of the notebook \<open>MC_Control_Varaite.ipynb\<close>: the price of an
  arithmetic Asian option by Monte-Carlo simulation, with and without the geometric
  Asian option as control variate. First the values and library functions the class
  uses, then the class method by method, then the formulas of the specification over
  the reals, and the properties relating the two.
\<close>

section \<open>Floating-point values\<close>

text \<open>
  Python's \<open>float\<close> and numpy's \<open>float64\<close> are IEEE doubles. They are modelled by their
  value: a real number, or one of the three special values. Rounding, overflow of
  finite results and the sign of zero are left out (a zero divisor counts as \<open>+0.0\<close>).
\<close>

datatype double = Fin real | PInf | NInf | NaN

instantiation double :: "{zero,one,plus,minus,uminus,times,inverse,ord}"
begin

definition zero_double :: double where
  "zero_double = Fin 0"

definition one_double :: double where
  "one_double = Fin 1"

fun uminus_double :: "double \<Rightarrow> double" where
  "uminus_double (Fin x) = Fin (- x)"
| "uminus_double PInf = NInf"
| "uminus_double NInf = PInf"
| "uminus_double NaN = NaN"

fun plus_double :: "double \<Rightarrow> double \<Rightarrow> double" where
  "plus_double NaN _ = NaN"
| "plus_double _ NaN = NaN"
| "plus_double (Fin x) (Fin y) = Fin (x + y)"
| "plus_double PInf NInf = NaN"
| "plus_double NInf PInf = NaN"
| "plus_double PInf _ = PInf"
| "plus_double _ PInf = PInf"
| "plus_double NInf _ = NInf"
| "plus_double _ NInf = NInf"

definition minus_double :: "double \<Rightarrow> double \<Rightarrow> double" where
  "minus_double a b = a + (- b)"

fun times_double :: "double \<Rightarrow> double \<Rightarrow> double" where
  "times_double NaN _ = NaN"
| "times_double _ NaN = NaN"
| "times_double (Fin x) (Fin y) = Fin (x * y)"
| "times_double PInf (Fin y) = (if y = 0 then NaN else if 0 < y then PInf else NInf)"
| "times_double NInf (Fin y) = (if y = 0 then NaN else if 0 < y then NInf else PInf)"
| "times_double (Fin x) PInf = (if x = 0 then NaN else if 0 < x then PInf else NInf)"
| "times_double (Fin x) NInf = (if x = 0 then NaN else if 0 < x then NInf else PInf)"
| "times_double PInf PInf = PInf"
| "times_double NInf NInf = PInf"
| "times_double PInf NInf = NInf"
| "times_double NInf PInf = NInf"

text \<open>numpy's division: a zero divisor gives an infinity or NaN (and a warning), no exception.\<close>

fun divide_double :: "double \<Rightarrow> double \<Rightarrow> double" where
  "divide_double NaN _ = NaN"
| "divide_double _ NaN = NaN"
| "divide_double (Fin x) (Fin y) =
     (if y \<noteq> 0 then Fin (x / y) else if 0 < x then PInf else if x < 0 then NInf else NaN)"
| "divide_double (Fin x) _ = Fin 0"
| "divide_double PInf (Fin y) = (if 0 \<le> y then PInf else NInf)"
| "divide_double NInf (Fin y) = (if 0 \<le> y then NInf else PInf)"
| "divide_double _ _ = NaN"

definition inverse_double :: "double \<Rightarrow> double" where
  "inverse_double a = divide (Fin 1) a"

fun less_double :: "double \<Rightarrow> double \<Rightarrow> bool" where
  "less_double NaN _ = False"
| "less_double _ NaN = False"
| "less_double (Fin x) (Fin y) = (x < y)"
| "less_double NInf NInf = False"
| "less_double NInf _ = True"
| "less_double _ NInf = False"
| "less_double PInf _ = False"
| "less_double _ PInf = True"

fun less_eq_double :: "double \<Rightarrow> double \<Rightarrow> bool" where
  "less_eq_double NaN _ = False"
| "less_eq_double _ NaN = False"
| "less_eq_double (Fin x) (Fin y) = (x \<le> y)"
| "less_eq_double NInf _ = True"
| "less_eq_double _ PInf = True"
| "less_eq_double _ _ = False"

instance ..

end

text \<open>The value of a finite double (0 for the special values, which have none).\<close>

fun val :: "double \<Rightarrow> real" where
  "val (Fin x) = x"
| "val _ = 0"

fun is_Fin :: "double \<Rightarrow> bool" where
  "is_Fin (Fin x) = True"
| "is_Fin _ = False"

definition of_pyint :: "int \<Rightarrow> double" where
  \<comment> \<open>the conversion of an \<open>int\<close> operand in mixed arithmetic, and \<open>float(i)\<close>\<close>
  "of_pyint i = Fin (real_of_int i)"

subsection \<open>The numpy and scipy functions the class calls\<close>

fun np_exp :: "double \<Rightarrow> double" where
  "np_exp (Fin x) = Fin (exp x)"
| "np_exp PInf = PInf"
| "np_exp NInf = Fin 0"
| "np_exp NaN = NaN"

fun np_log :: "double \<Rightarrow> double" where
  "np_log (Fin x) = (if 0 < x then Fin (ln x) else if x = 0 then NInf else NaN)"
| "np_log PInf = PInf"
| "np_log NInf = NaN"
| "np_log NaN = NaN"

fun np_sqrt :: "double \<Rightarrow> double" where
  "np_sqrt (Fin x) = (if 0 \<le> x then Fin (sqrt x) else NaN)"
| "np_sqrt PInf = PInf"
| "np_sqrt NInf = NaN"
| "np_sqrt NaN = NaN"

fun np_maximum :: "double \<Rightarrow> double \<Rightarrow> double" where
  "np_maximum NaN _ = NaN"
| "np_maximum _ NaN = NaN"
| "np_maximum a b = (if a \<le> b then b else a)"

text \<open>The error function, by its Maclaurin series; \<open>scipy.special.erf\<close> on doubles.\<close>

definition erf :: "real \<Rightarrow> real" where
  "erf x = 2 / sqrt pi * (\<Sum>n. (- 1) ^ n * x ^ (2 * n + 1) / (fact n * real (2 * n + 1)))"

fun sp_erf :: "double \<Rightarrow> double" where
  "sp_erf (Fin x) = Fin (erf x)"
| "sp_erf PInf = Fin 1"
| "sp_erf NInf = Fin (- 1)"
| "sp_erf NaN = NaN"

definition np_sum :: "double list \<Rightarrow> double" where
  "np_sum xs = foldl (+) 0 xs"

definition np_mean :: "double list \<Rightarrow> double" where
  \<comment> \<open>the mean of an empty array is \<open>0.0 / 0\<close>, NaN\<close>
  "np_mean xs = np_sum xs / Fin (real (length xs))"

definition np_std :: "double list \<Rightarrow> double" where
  "np_std xs =
     (let arrmean = np_mean xs;
          x = map (\<lambda>a. a - arrmean) xs
      in np_sqrt (np_sum (map (\<lambda>a. a * a) x) / Fin (real (length xs))))"

fun cumprod_from :: "double \<Rightarrow> double list \<Rightarrow> double list" where
  "cumprod_from acc [] = []"
| "cumprod_from acc (x # xs) = (acc * x) # cumprod_from (acc * x) xs"

fun np_cumprod :: "double list \<Rightarrow> double list" where
  "np_cumprod [] = []"
| "np_cumprod (x # xs) = x # cumprod_from x xs"

subsection \<open>Exceptions\<close>

datatype exn =
  ValueError | TypeError | AssertionError | AttributeError | ZeroDivisionError | OverflowError

definition py_truediv :: "double \<Rightarrow> double \<Rightarrow> exn + double" where
  \<comment> \<open>\<open>/\<close> between Python floats (or a float and an int): a zero divisor raises\<close>
  "py_truediv a b = (if b = Fin 0 then Inl ZeroDivisionError else Inr (a / b))"

section \<open>Python values passed to the constructor\<close>

datatype pyval = PyStr string | PyInt int | PyFloat double

fun is_str :: "pyval \<Rightarrow> bool" where
  "is_str (PyStr s) = True"
| "is_str _ = False"

subsection \<open>Numeric literals in strings\<close>

text \<open>
  \<open>float(s)\<close> and \<open>int(s)\<close> on a string (of ASCII characters): surrounding whitespace is
  dropped, single underscores may separate digits, and anything that is not a numeric
  literal is a \<open>ValueError\<close>.
\<close>

definition is_space :: "char \<Rightarrow> bool" where
  "is_space c = ((of_char c :: nat) \<in> {9, 10, 11, 12, 13, 32})"

definition is_digit :: "char \<Rightarrow> bool" where
  "is_digit c = (48 \<le> (of_char c :: nat) \<and> (of_char c :: nat) \<le> 57)"

definition digits_val :: "string \<Rightarrow> nat" where
  "digits_val ds = foldl (\<lambda>a c. 10 * a + (of_char c - 48)) 0 ds"

definition strip :: "string \<Rightarrow> string" where
  "strip s = rev (dropWhile is_space (rev (dropWhile is_space s)))"

definition to_lower :: "char \<Rightarrow> char" where
  "to_lower c = (if 65 \<le> (of_char c :: nat) \<and> (of_char c :: nat) \<le> 90
                 then char_of ((of_char c :: nat) + 32) else c)"

fun split_sign :: "string \<Rightarrow> bool \<times> string" where
  "split_sign [] = (False, [])"
| "split_sign (c # cs) =
     (if c = CHR ''-'' then (True, cs) else if c = CHR ''+'' then (False, cs) else (False, c # cs))"

fun digits_ok :: "string \<Rightarrow> bool" where
  "digits_ok [] = False"
| "digits_ok [c] = is_digit c"
| "digits_ok (c # d # cs) =
     (is_digit c \<and> (if d = CHR ''_'' then digits_ok cs else digits_ok (d # cs)))"

definition int_of_str :: "string \<Rightarrow> int option" where
  "int_of_str s =
     (let (neg, body) = split_sign (strip s)
      in if digits_ok body
         then Some ((if neg then - 1 else 1) * int (digits_val (filter is_digit body)))
         else None)"

fun underscores_ok :: "char \<Rightarrow> string \<Rightarrow> bool" where
  "underscores_ok prev [] = (prev \<noteq> CHR ''_'')"
| "underscores_ok prev (c # cs) =
     ((if c = CHR ''_'' then is_digit prev else (prev = CHR ''_'' \<longrightarrow> is_digit c))
      \<and> underscores_ok c cs)"

definition scale10 :: "nat \<Rightarrow> int \<Rightarrow> real" where
  "scale10 m e = (if 0 \<le> e then real m * 10 ^ nat e else real m / 10 ^ nat (- e))"

definition exponent_of :: "string \<Rightarrow> int option" where
  \<comment> \<open>what follows the mantissa: nothing, or \<open>e\<close>, an optional sign and digits\<close>
  "exponent_of s =
     (case s of
        [] \<Rightarrow> Some 0
      | c # cs \<Rightarrow>
          if c = CHR ''e'' \<or> c = CHR ''E''
          then (let (neg, ds) = split_sign cs
                in if ds \<noteq> [] \<and> list_all is_digit ds
                   then Some ((if neg then - 1 else 1) * int (digits_val ds)) else None)
          else None)"

definition decimal_of :: "string \<Rightarrow> real option" where
  "decimal_of s =
     (let ip = takeWhile is_digit s;
          rest = dropWhile is_digit s;
          point = (rest \<noteq> [] \<and> hd rest = CHR ''.'');
          fp = (if point then takeWhile is_digit (tl rest) else []);
          rest' = (if point then dropWhile is_digit (tl rest) else rest)
      in if ip = [] \<and> fp = [] then None
         else (case exponent_of rest' of
                 None \<Rightarrow> None
               | Some e \<Rightarrow> Some (scale10 (digits_val (ip @ fp)) (e - int (length fp)))))"

definition float_of_str :: "string \<Rightarrow> double option" where
  "float_of_str s =
     (let t = strip s in
      if \<not> underscores_ok (CHR 0x00) t then None
      else
        let (neg, body) = split_sign (filter (\<lambda>c. c \<noteq> CHR ''_'') t);
            word = map to_lower body
        in if word = ''inf'' \<or> word = ''infinity'' then Some (if neg then NInf else PInf)
           else if word = ''nan'' then Some NaN
           else (case decimal_of body of
                   None \<Rightarrow> None
                 | Some x \<Rightarrow> Some (Fin (if neg then - x else x))))"

subsection \<open>The built-in operations of the constructor\<close>

fun py_float :: "pyval \<Rightarrow> exn + double" where
  "py_float (PyStr s) = (case float_of_str s of None \<Rightarrow> Inl ValueError | Some d \<Rightarrow> Inr d)"
| "py_float (PyInt i) = Inr (of_pyint i)"
| "py_float (PyFloat d) = Inr d"

fun py_int :: "pyval \<Rightarrow> exn + int" where
  "py_int (PyStr s) = (case int_of_str s of None \<Rightarrow> Inl ValueError | Some i \<Rightarrow> Inr i)"
| "py_int (PyInt i) = Inr i"
| "py_int (PyFloat (Fin x)) = Inr (if 0 \<le> x then \<lfloor>x\<rfloor> else \<lceil>x\<rceil>)"
| "py_int (PyFloat NaN) = Inl ValueError"
| "py_int (PyFloat _) = Inl OverflowError"

text \<open>\<open>x < 0\<close> and \<open>x <= 0\<close>: a string does not compare with an int.\<close>

fun py_lt0 :: "pyval \<Rightarrow> exn + bool" where
  "py_lt0 (PyStr s) = Inl TypeError"
| "py_lt0 (PyInt i) = Inr (i < 0)"
| "py_lt0 (PyFloat d) = Inr (d < 0)"

fun py_le0 :: "pyval \<Rightarrow> exn + bool" where
  "py_le0 (PyStr s) = Inl TypeError"
| "py_le0 (PyInt i) = Inr (i \<le> 0)"
| "py_le0 (PyFloat d) = Inr (d \<le> 0)"

text \<open>A chain of \<open>or\<close>: the operands are evaluated from the left, up to the first true one.\<close>

fun py_or :: "(exn + bool) list \<Rightarrow> exn + bool" where
  "py_or [] = Inr False"
| "py_or (Inl e # bs) = Inl e"
| "py_or (Inr True # bs) = Inr True"
| "py_or (Inr False # bs) = py_or bs"

section \<open>The class \<open>AsianOptionMC\<close>\<close>

text \<open>An instance with all its attributes set.\<close>

record AsianOptionMC =
  option_type :: string
  S0 :: double
  strike :: double
  T :: double
  M :: int
  r :: double
  div_yield :: double
  sigma :: double
  simulations :: int
  time_unit :: double
  discount :: double

subsection \<open>\<open>GeometricAsianOption\<close>\<close>

definition GeometricAsianOption :: "AsianOptionMC \<Rightarrow> exn + double" where
  "GeometricAsianOption self =
     (case py_truediv (sigma self * sigma self * T self * of_pyint (M self + 1)
                         * of_pyint (2 * M self + 1))
                      (of_pyint (6 * M self * M self)) of
        Inl e \<Rightarrow> Inl e
      | Inr sigsqT \<Rightarrow>
     (case py_truediv ((r self - Fin 0.5 * (sigma self * sigma self)) * T self
                         * of_pyint (M self + 1))
                      (of_pyint (2 * M self)) of
        Inl e \<Rightarrow> Inl e
      | Inr drift \<Rightarrow>
          let muT = Fin 0.5 * sigsqT + drift in
     (case py_truediv (S0 self) (strike self) of
        Inl e \<Rightarrow> Inl e
      | Inr ratio \<Rightarrow>
          let d1 = (np_log ratio + (muT + Fin 0.5 * sigsqT)) / np_sqrt sigsqT;
              d2 = d1 - np_sqrt sigsqT;
              N1 = Fin 0.5 * (1 + sp_erf (d1 / np_sqrt (Fin 2)));
              N2 = Fin 0.5 * (1 + sp_erf (d2 / np_sqrt (Fin 2)));
              geometric_value = discount self * (S0 self * np_exp muT * N1 - strike self * N2)
          in Inr geometric_value)))"

subsection \<open>\<open>__init__\<close>\<close>

text \<open>
  The attributes of \<open>self\<close> while the constructor runs: \<open>None\<close> is an attribute not set
  yet. The constructor's result is what it printed and either the exception that
  reached the caller or the instance.
\<close>

record inst_dict =
  d_option_type :: "pyval option"
  d_S0 :: "double option"
  d_strike :: "double option"
  d_T :: "double option"
  d_M :: "int option"
  d_r :: "double option"
  d_div :: "double option"
  d_sigma :: "double option"
  d_simulations :: "int option"
  d_time_unit :: "double option"
  d_discount :: "double option"

definition no_attrs :: inst_dict where
  "no_attrs = \<lparr>d_option_type = None, d_S0 = None, d_strike = None, d_T = None, d_M = None,
     d_r = None, d_div = None, d_sigma = None, d_simulations = None, d_time_unit = None,
     d_discount = None\<rparr>"

text \<open>The \<open>try\<close> suite: the exception that ended it, if any, and the attributes set so far.\<close>

definition try_suite ::
  "pyval \<Rightarrow> pyval \<Rightarrow> pyval \<Rightarrow> pyval \<Rightarrow> pyval \<Rightarrow> pyval \<Rightarrow> pyval \<Rightarrow> pyval \<Rightarrow> pyval
     \<Rightarrow> exn option \<times> inst_dict" where
  "try_suite option_type' S0' strike' T' M' r' div' sigma' simulations' =
     (let self0 = no_attrs\<lparr>d_option_type := Some option_type'\<rparr> in
      if \<not> is_str option_type' then (Some AssertionError, self0) else
     (case py_float S0' of Inl e \<Rightarrow> (Some e, self0) | Inr v1 \<Rightarrow>
      let self1 = self0\<lparr>d_S0 := Some v1\<rparr> in
     (case py_float strike' of Inl e \<Rightarrow> (Some e, self1) | Inr v2 \<Rightarrow>
      let self2 = self1\<lparr>d_strike := Some v2\<rparr> in
     (case py_float T' of Inl e \<Rightarrow> (Some e, self2) | Inr v3 \<Rightarrow>
      let self3 = self2\<lparr>d_T := Some v3\<rparr> in
     (case py_int M' of Inl e \<Rightarrow> (Some e, self3) | Inr v4 \<Rightarrow>
      let self4 = self3\<lparr>d_M := Some v4\<rparr> in
     (case py_float r' of Inl e \<Rightarrow> (Some e, self4) | Inr v5 \<Rightarrow>
      let self5 = self4\<lparr>d_r := Some v5\<rparr> in
     (case py_float div' of Inl e \<Rightarrow> (Some e, self5) | Inr v6 \<Rightarrow>
      let self6 = self5\<lparr>d_div := Some v6\<rparr> in
     (case py_float sigma' of Inl e \<Rightarrow> (Some e, self6) | Inr v7 \<Rightarrow>
      let self7 = self6\<lparr>d_sigma := Some v7\<rparr> in
     (case py_int simulations' of Inl e \<Rightarrow> (Some e, self7) | Inr v8 \<Rightarrow>
      (None, self7\<lparr>d_simulations := Some v8\<rparr>))))))))))"

definition init ::
  "pyval \<Rightarrow> pyval \<Rightarrow> pyval \<Rightarrow> pyval \<Rightarrow> pyval \<Rightarrow> pyval \<Rightarrow> pyval \<Rightarrow> pyval \<Rightarrow> pyval
     \<Rightarrow> string list \<times> (exn + inst_dict)" where
  "init option_type' S0' strike' T' M' r' div' sigma' simulations' =
     (case try_suite option_type' S0' strike' T' M' r' div' sigma' simulations' of
        (raised, self) \<Rightarrow>
     (case (case raised of None \<Rightarrow> Inr []
            | Some e \<Rightarrow> if e = ValueError then Inr [''Error passing Options parameters'']
                        else Inl e) of
        Inl e \<Rightarrow> ([], Inl e)
      | Inr out \<Rightarrow>
          if option_type' \<noteq> PyStr ''call'' \<and> option_type' \<noteq> PyStr ''put''
          then (out, Inl ValueError)
          else
     (case py_or [py_lt0 S0', py_lt0 strike', py_le0 T', py_lt0 r', py_lt0 div', py_lt0 sigma'] of
        Inl e \<Rightarrow> (out, Inl e)
      | Inr True \<Rightarrow> (out, Inl ValueError)
      | Inr False \<Rightarrow>
     (case (d_T self, d_M self) of
        (Some t, Some m) \<Rightarrow>
          (case py_truediv t (of_pyint m) of
             Inl e \<Rightarrow> (out, Inl e)
           | Inr tu \<Rightarrow>
               (case d_r self of
                  None \<Rightarrow> (out, Inl AttributeError)
                | Some rate \<Rightarrow>
                    (out, Inr (self\<lparr>d_time_unit := Some tu,
                                    d_discount := Some (np_exp (- rate * t))\<rparr>))))
      | _ \<Rightarrow> (out, Inl AttributeError)))))"

text \<open>The instance as a record, when every attribute is set.\<close>

definition instance_of :: "inst_dict \<Rightarrow> AsianOptionMC option" where
  "instance_of d =
     (case (d_option_type d, d_S0 d, d_strike d, d_T d, d_M d, d_r d) of
        (Some (PyStr ot), Some s0, Some k, Some t, Some m, Some rate) \<Rightarrow>
          (case (d_div d, d_sigma d, d_simulations d, d_time_unit d, d_discount d) of
             (Some dv, Some sg, Some n, Some tu, Some dc) \<Rightarrow>
               Some \<lparr>option_type = ot, S0 = s0, strike = k, T = t, M = m, r = rate,
                      div_yield = dv, sigma = sg, simulations = n, time_unit = tu,
                      discount = dc\<rparr>
           | _ \<Rightarrow> None)
      | _ \<Rightarrow> None)"

subsection \<open>The random generator\<close>

text \<open>
  numpy's global generator, as the sequence of standard normal draws it will produce.
  \<open>np.random.seed(k)\<close> replaces it by \<open>mt k\<close>, the sequence of the Mersenne Twister
  seeded with \<open>k\<close>, which every function below takes as its first argument;
  \<open>randn(d0, d1)\<close> fills the array row by row.
\<close>

type_synonym rng = "nat \<Rightarrow> real"

definition np_random_randn :: "int \<Rightarrow> int \<Rightarrow> rng \<Rightarrow> (exn + double list list) \<times> rng" where
  "np_random_randn d0 d1 g =
     (if d0 < 0 \<or> d1 < 0 then (Inl ValueError, g)
      else (Inr (map (\<lambda>i. map (\<lambda>j. Fin (g (i * nat d1 + j))) [0..<nat d1]) [0..<nat d0]),
            (\<lambda>k. g (k + nat d0 * nat d1))))"

subsection \<open>\<open>price_path\<close>, \<open>MCPayoff\<close>, \<open>value\<close>, \<open>value_with_control_variate\<close>\<close>

definition price_path ::
  "(nat \<Rightarrow> rng) \<Rightarrow> AsianOptionMC \<Rightarrow> rng \<Rightarrow> (exn + double list list) \<times> rng" where
  "price_path mt self g =
     (let seeded = mt 100;
          drift = (r self - Fin 0.5 * (sigma self * sigma self)) * time_unit self;
          vol = sigma self * np_sqrt (time_unit self)
      in case np_random_randn (simulations self) (M self) seeded of
           (Inl e, g') \<Rightarrow> (Inl e, g')
         | (Inr Z, g') \<Rightarrow>
             (Inr (map (\<lambda>row. map (\<lambda>p. S0 self * p)
                                  (np_cumprod (map (\<lambda>z. np_exp (drift + vol * z)) row))) Z),
              g'))"

definition MCPayoff ::
  "(nat \<Rightarrow> rng) \<Rightarrow> AsianOptionMC \<Rightarrow> rng \<Rightarrow> (exn + double list) \<times> rng" where
  "MCPayoff mt self g =
     (case price_path mt self g of
        (Inl e, g') \<Rightarrow> (Inl e, g')
      | (Inr paths, g') \<Rightarrow>
          (Inr (if option_type self = ''call''
                then map (\<lambda>avg. discount self * np_maximum (avg - strike self) 0)
                         (map np_mean paths)
                else map (\<lambda>avg. discount self * np_maximum (strike self - avg) 0)
                         (map np_mean paths)),
           g'))"

definition "value" ::
  "(nat \<Rightarrow> rng) \<Rightarrow> AsianOptionMC \<Rightarrow> rng \<Rightarrow> (exn + double \<times> double \<times> double) \<times> rng" where
  "value mt self g =
     (case MCPayoff mt self g of
        (Inl e, g1) \<Rightarrow> (Inl e, g1)
      | (Inr payoff1, g1) \<Rightarrow>
          let MCvalue = np_mean payoff1 in
     (case MCPayoff mt self g1 of
        (Inl e, g2) \<Rightarrow> (Inl e, g2)
      | (Inr payoff2, g2) \<Rightarrow>
          let MCValue_std = np_std payoff2;
              upper_bound =
                MCvalue + Fin 1.96 * MCValue_std / np_sqrt (of_pyint (simulations self));
              lower_bound =
                MCvalue - Fin 1.96 * MCValue_std / np_sqrt (of_pyint (simulations self))
          in (Inr (MCvalue, lower_bound, upper_bound), g2)))"

definition value_with_control_variate ::
  "(nat \<Rightarrow> rng) \<Rightarrow> AsianOptionMC \<Rightarrow> rng \<Rightarrow> (exn + double \<times> double \<times> double) \<times> rng" where
  "value_with_control_variate mt self g =
     (case py_truediv 1 (of_pyint (M self)) of
        Inl e \<Rightarrow> (Inl e, g)
      | Inr w \<Rightarrow>
     (case price_path mt self g of
        (Inl e, g1) \<Rightarrow> (Inl e, g1)
      | (Inr paths, g1) \<Rightarrow>
          let geometric_average = map (\<lambda>row. np_exp (w * np_sum (map np_log row))) paths;
              MCpayoff_geometric =
                (if option_type self = ''call''
                 then map (\<lambda>ga. discount self * np_maximum (ga - strike self) 0)
                          geometric_average
                 else map (\<lambda>ga. discount self * np_maximum (strike self - ga) 0)
                          geometric_average)
          in
     (case MCPayoff mt self g1 of
        (Inl e, g2) \<Rightarrow> (Inl e, g2)
      | (Inr payoff, g2) \<Rightarrow>
     (case GeometricAsianOption self of
        Inl e \<Rightarrow> (Inl e, g2)
      | Inr geometric_value \<Rightarrow>
          let value_with_CV = map2 (\<lambda>a q. a + geometric_value - q) payoff MCpayoff_geometric;
              mean_CV = np_mean value_with_CV;
              std_CV = np_std value_with_CV;
              upper_bound_CV =
                mean_CV + Fin 1.96 * std_CV / np_sqrt (of_pyint (simulations self));
              lower_bound_CV =
                mean_CV - Fin 1.96 * std_CV / np_sqrt (of_pyint (simulations self))
          in (Inr (mean_CV, lower_bound_CV, upper_bound_CV), g2)))))"

section \<open>Valid contracts and the formulas of the specification\<close>

text \<open>
  A valid contract: an instance whose attributes meet the bounds of the data model, all
  finite, with the derived attributes as the constructor computes them.
\<close>

definition valid :: "AsianOptionMC \<Rightarrow> bool" where
  "valid c \<longleftrightarrow>
     (option_type c = ''call'' \<or> option_type c = ''put'')
     \<and> is_Fin (S0 c) \<and> 0 \<le> val (S0 c)
     \<and> is_Fin (strike c) \<and> 0 \<le> val (strike c)
     \<and> is_Fin (T c) \<and> 0 < val (T c)
     \<and> 0 < M c
     \<and> is_Fin (r c) \<and> 0 \<le> val (r c)
     \<and> is_Fin (div_yield c) \<and> 0 \<le> val (div_yield c)
     \<and> is_Fin (sigma c) \<and> 0 \<le> val (sigma c)
     \<and> 0 < simulations c
     \<and> time_unit c = T c / of_pyint (M c)
     \<and> discount c = np_exp (- r c * T c)"

subsection \<open>The closed form of the geometric option\<close>

definition spec_sigsqT :: "real \<Rightarrow> real \<Rightarrow> real \<Rightarrow> real" where
  "spec_sigsqT sg t m = sg\<^sup>2 * t * (m + 1) * (2 * m + 1) / (6 * m\<^sup>2)"

definition spec_muT :: "real \<Rightarrow> real \<Rightarrow> real \<Rightarrow> real \<Rightarrow> real" where
  "spec_muT rate sg t m =
     0.5 * spec_sigsqT sg t m + (rate - 0.5 * sg\<^sup>2) * t * (m + 1) / (2 * m)"

definition spec_d1 :: "real \<Rightarrow> real \<Rightarrow> real \<Rightarrow> real \<Rightarrow> real \<Rightarrow> real \<Rightarrow> real" where
  "spec_d1 s k rate sg t m =
     (ln (s / k) + spec_muT rate sg t m + 0.5 * spec_sigsqT sg t m) / sqrt (spec_sigsqT sg t m)"

definition spec_d2 :: "real \<Rightarrow> real \<Rightarrow> real \<Rightarrow> real \<Rightarrow> real \<Rightarrow> real \<Rightarrow> real" where
  "spec_d2 s k rate sg t m = spec_d1 s k rate sg t m - sqrt (spec_sigsqT sg t m)"

definition spec_N :: "real \<Rightarrow> real" where
  "spec_N x = 0.5 * (1 + erf (x / sqrt 2))"

definition spec_geometric_value :: "real \<Rightarrow> real \<Rightarrow> real \<Rightarrow> real \<Rightarrow> real \<Rightarrow> real \<Rightarrow> real" where
  "spec_geometric_value s k rate sg t m =
     exp (- rate * t)
       * (s * exp (spec_muT rate sg t m) * spec_N (spec_d1 s k rate sg t m)
          - k * spec_N (spec_d2 s k rate sg t m))"

definition analytic_value :: "AsianOptionMC \<Rightarrow> real" where
  "analytic_value c =
     spec_geometric_value (val (S0 c)) (val (strike c)) (val (r c)) (val (sigma c))
       (val (T c)) (real_of_int (M c))"

subsection \<open>Paths, payoffs and estimators\<close>

text \<open>The price recurrence, from the price \<open>s\<close> before the first step.\<close>

fun spec_path :: "real \<Rightarrow> real \<Rightarrow> real \<Rightarrow> real \<Rightarrow> real list \<Rightarrow> real list" where
  "spec_path s rate sg dt [] = []"
| "spec_path s rate sg dt (z # zs) =
     s * exp ((rate - 0.5 * sg\<^sup>2) * dt + sg * sqrt dt * z)
       # spec_path (s * exp ((rate - 0.5 * sg\<^sup>2) * dt + sg * sqrt dt * z)) rate sg dt zs"

definition normal_draws :: "(nat \<Rightarrow> rng) \<Rightarrow> nat \<Rightarrow> nat \<Rightarrow> real list list" where
  \<comment> \<open>the matrix \<open>Z\<close>: the first \<open>n * m\<close> draws after seeding with 100, row by row\<close>
  "normal_draws mt n m = map (\<lambda>i. map (\<lambda>j. mt 100 (i * m + j)) [0..<m]) [0..<n]"

definition spec_paths :: "(nat \<Rightarrow> rng) \<Rightarrow> AsianOptionMC \<Rightarrow> real list list" where
  "spec_paths mt c =
     map (spec_path (val (S0 c)) (val (r c)) (val (sigma c))
            (val (T c) / real_of_int (M c)))
         (normal_draws mt (nat (simulations c)) (nat (M c)))"

definition spec_payoff :: "string \<Rightarrow> real \<Rightarrow> real \<Rightarrow> real" where
  "spec_payoff ot k avg = (if ot = ''call'' then max (avg - k) 0 else max (k - avg) 0)"

definition arithmetic_avg :: "real \<Rightarrow> real list \<Rightarrow> real" where
  "arithmetic_avg m row = sum_list row / m"

definition geometric_avg :: "real \<Rightarrow> real list \<Rightarrow> real" where
  "geometric_avg m row = exp ((1 / m) * sum_list (map ln row))"

definition arithmetic_payoffs :: "(nat \<Rightarrow> rng) \<Rightarrow> AsianOptionMC \<Rightarrow> real list" where
  "arithmetic_payoffs mt c =
     map (\<lambda>row. exp (- val (r c) * val (T c))
                  * spec_payoff (option_type c) (val (strike c))
                      (arithmetic_avg (real_of_int (M c)) row))
         (spec_paths mt c)"

definition geometric_payoffs :: "(nat \<Rightarrow> rng) \<Rightarrow> AsianOptionMC \<Rightarrow> real list" where
  "geometric_payoffs mt c =
     map (\<lambda>row. exp (- val (r c) * val (T c))
                  * spec_payoff (option_type c) (val (strike c))
                      (geometric_avg (real_of_int (M c)) row))
         (spec_paths mt c)"


definition spec_mean :: "real list \<Rightarrow> real" where
  "spec_mean xs = sum_list xs / real (length xs)"






subsection \<open>Example instances\<close>

text \<open>
  The instance of the class's docstring,
  \<^verbatim>\<open>AsianOptionMC('call', 4., 4., 1., 100., .03, 0, .25, 10000)\<close>.
\<close>

definition doc_example :: AsianOptionMC where
  "doc_example =
     \<lparr>option_type = ''call'', S0 = Fin 4, strike = Fin 4, T = Fin 1, M = 100, r = Fin 0.03,
      div_yield = Fin 0, sigma = Fin 0.25, simulations = 10000, time_unit = Fin (1 / 100),
      discount = Fin (exp (- 0.03))\<rparr>"

text \<open>
  \<^verbatim>\<open>AsianOptionMC('call', 4, 3, 1, 1, 0, 0, 0, 2)\<close>: one time step, no volatility, two
  simulations.
\<close>

definition flat_call :: AsianOptionMC where
  "flat_call =
     \<lparr>option_type = ''call'', S0 = Fin 4, strike = Fin 3, T = Fin 1, M = 1, r = Fin 0,
      div_yield = Fin 0, sigma = Fin 0, simulations = 2, time_unit = Fin 1,
      discount = Fin 1\<rparr>"

text \<open>\<^verbatim>\<open>AsianOptionMC('put', 2, 3, 1, 1, 0, 0, 0, 2)\<close>.\<close>

definition flat_put :: AsianOptionMC where
  "flat_put =
     \<lparr>option_type = ''put'', S0 = Fin 2, strike = Fin 3, T = Fin 1, M = 1, r = Fin 0,
      div_yield = Fin 0, sigma = Fin 0, simulations = 2, time_unit = Fin 1,
      discount = Fin 1\<rparr>"

text \<open>
  \<^verbatim>\<open>AsianOptionMC('call', 4., 0., 1., 100., .03, 0, .25, 10000)\<close>: the docstring's
  instance with a zero strike, which the constructor accepts.
\<close>

definition zero_strike :: AsianOptionMC where
  "zero_strike =
     \<lparr>option_type = ''call'', S0 = Fin 4, strike = Fin 0, T = Fin 1, M = 100, r = Fin 0.03,
      div_yield = Fin 0, sigma = Fin 0.25, simulations = 10000, time_unit = Fin (1 / 100),
      discount = Fin (exp (- 0.03))\<rparr>"

text \<open>\<^verbatim>\<open>AsianOptionMC('call', 4., 4., 1., 100., 0, 0, 0, 10000)\<close>.\<close>

definition at_the_money_flat :: AsianOptionMC where
  "at_the_money_flat =
     \<lparr>option_type = ''call'', S0 = Fin 4, strike = Fin 4, T = Fin 1, M = 100, r = Fin 0,
      div_yield = Fin 0, sigma = Fin 0, simulations = 10000, time_unit = Fin (1 / 100),
      discount = Fin 1\<rparr>"

text \<open>
  \<^verbatim>\<open>AsianOptionMC('put', 1, 9, 2, 2, 0, 0, 1, 2)\<close> and
  \<^verbatim>\<open>AsianOptionMC('call', 1, 3, 2, 2, 0, 0, 1, 2)\<close>: two time steps of length 1, two
  simulations.
\<close>

definition volatile_put :: AsianOptionMC where
  "volatile_put =
     \<lparr>option_type = ''put'', S0 = Fin 1, strike = Fin 9, T = Fin 2, M = 2, r = Fin 0,
      div_yield = Fin 0, sigma = Fin 1, simulations = 2, time_unit = Fin 1,
      discount = Fin 1\<rparr>"

definition volatile_call :: AsianOptionMC where
  "volatile_call =
     \<lparr>option_type = ''call'', S0 = Fin 1, strike = Fin 3, T = Fin 2, M = 2, r = Fin 0,
      div_yield = Fin 0, sigma = Fin 1, simulations = 2, time_unit = Fin 1,
      discount = Fin 1\<rparr>"



text \<open>A constructor argument that is a finite number.\<close>

fun is_number :: "pyval \<Rightarrow> bool" where
  "is_number (PyStr s) = False"
| "is_number (PyInt i) = True"
| "is_number (PyFloat d) = is_Fin d"

section \<open>Finite arithmetic on valid contracts\<close>

lemma is_Fin_val: "is_Fin d \<Longrightarrow> d = Fin (val d)"
  by (cases d) simp_all

lemma foldl_plus_Fin: "foldl (+) (Fin a) (map Fin xs) = Fin (a + sum_list xs)"
  by (induction xs arbitrary: a) (simp_all add: add.assoc)

lemma np_sum_Fin: "np_sum (map Fin xs) = Fin (sum_list xs)"
  by (simp add: np_sum_def zero_double_def foldl_plus_Fin)

lemma np_mean_Fin: "xs \<noteq> [] \<Longrightarrow> np_mean (map Fin xs) = Fin (spec_mean xs)"
  by (simp add: np_mean_def np_sum_Fin spec_mean_def)


lemma cumprod_from_path:
  "map (\<lambda>p. Fin s * p)
       (cumprod_from (Fin a) (map (\<lambda>z. Fin (exp ((rate - 0.5 * sg\<^sup>2) * dt + sg * sqrt dt * z))) zs))
     = map Fin (spec_path (s * a) rate sg dt zs)"
  by (induction zs arbitrary: a) (simp_all add: mult.assoc)

lemma np_cumprod_path:
  "map (\<lambda>p. Fin s * p)
       (np_cumprod (map (\<lambda>z. Fin (exp ((rate - 0.5 * sg\<^sup>2) * dt + sg * sqrt dt * z))) zs))
     = map Fin (spec_path s rate sg dt zs)"
proof (cases zs)
  case Nil
  then show ?thesis by simp
next
  case (Cons z zs')
  then show ?thesis
    using cumprod_from_path [of s "exp ((rate - 0.5 * sg\<^sup>2) * dt + sg * sqrt dt * z)" rate sg dt zs']
    by simp
qed

lemma randn_draws:
  "0 \<le> n \<Longrightarrow> 0 \<le> m \<Longrightarrow>
     fst (np_random_randn n m g) = Inr (map (map Fin) (map (\<lambda>i. map (\<lambda>j. g (i * nat m + j)) [0..<nat m]) [0..<nat n]))"
  by (simp add: np_random_randn_def comp_def)

lemma valid_reals:
  assumes "valid c"
  obtains s k t rate sg where
    "S0 c = Fin s" "strike c = Fin k" "T c = Fin t" "r c = Fin rate" "sigma c = Fin sg"
    "0 \<le> s" "0 \<le> k" "0 < t" "0 \<le> rate" "0 \<le> sg" "0 < M c" "0 < simulations c"
    "time_unit c = Fin (t / real_of_int (M c))" "discount c = Fin (exp (- rate * t))"
proof -
  from assms have fin: "is_Fin (S0 c)" "is_Fin (strike c)" "is_Fin (T c)" "is_Fin (r c)"
      "is_Fin (sigma c)"
    and pos: "0 \<le> val (S0 c)" "0 \<le> val (strike c)" "0 < val (T c)" "0 \<le> val (r c)"
      "0 \<le> val (sigma c)" "0 < M c" "0 < simulations c"
    and der: "time_unit c = T c / of_pyint (M c)" "discount c = np_exp (- r c * T c)"
    unfolding valid_def by simp_all
  from fin have eqs: "S0 c = Fin (val (S0 c))" "strike c = Fin (val (strike c))"
      "T c = Fin (val (T c))" "r c = Fin (val (r c))" "sigma c = Fin (val (sigma c))"
    by (simp_all add: is_Fin_val)
  have tu: "time_unit c = Fin (val (T c) / real_of_int (M c))"
    using pos(6) by (subst der(1), subst eqs(3)) (simp add: of_pyint_def)
  have dc: "discount c = Fin (exp (- val (r c) * val (T c)))"
    by (subst der(2), subst eqs(4), subst eqs(3)) simp
  show thesis
    using that [OF eqs pos tu dc] .
qed

lemma price_path_valid:
  assumes "valid c"
  shows "fst (price_path mt c g) = Inr (map (map Fin) (spec_paths mt c))"
proof -
  from assms obtain s k t rate sg where f:
    "S0 c = Fin s" "strike c = Fin k" "T c = Fin t" "r c = Fin rate" "sigma c = Fin sg"
    "0 \<le> s" "0 \<le> k" "0 < t" "0 \<le> rate" "0 \<le> sg" "0 < M c" "0 < simulations c"
    "time_unit c = Fin (t / real_of_int (M c))" "discount c = Fin (exp (- rate * t))"
    by (rule valid_reals)
  have dt: "0 \<le> t / real_of_int (M c)"
    using f by simp
  have row: "(\<lambda>row. map (\<lambda>p. S0 c * p)
        (np_cumprod (map (\<lambda>z. np_exp ((r c - Fin 0.5 * (sigma c * sigma c)) * time_unit c
                                   + sigma c * np_sqrt (time_unit c) * z)) row))) \<circ> map Fin
      = (\<lambda>zs. map Fin (spec_path s rate sg (t / real_of_int (M c)) zs))"
  proof (rule ext)
    fix zs
    show "((\<lambda>row. map (\<lambda>p. S0 c * p)
        (np_cumprod (map (\<lambda>z. np_exp ((r c - Fin 0.5 * (sigma c * sigma c)) * time_unit c
                                   + sigma c * np_sqrt (time_unit c) * z)) row))) \<circ> map Fin) zs
      = map Fin (spec_path s rate sg (t / real_of_int (M c)) zs)"
      using dt np_cumprod_path [of s rate sg "t / real_of_int (M c)" zs]
      by (simp add: f minus_double_def power2_eq_square comp_def)
  qed
  have Z: "fst (np_random_randn (simulations c) (M c) (mt 100))
             = Inr (map (map Fin) (normal_draws mt (nat (simulations c)) (nat (M c))))"
    using f by (simp add: randn_draws normal_draws_def)
  then obtain g' where Z': "np_random_randn (simulations c) (M c) (mt 100)
             = (Inr (map (map Fin) (normal_draws mt (nat (simulations c)) (nat (M c)))), g')"
    by (metis prod.collapse)
  have "fst (price_path mt c g)
          = Inr (map (\<lambda>zs. map Fin (spec_path s rate sg (t / real_of_int (M c)) zs))
                   (normal_draws mt (nat (simulations c)) (nat (M c))))"
    unfolding price_path_def Let_def Z'
    by (simp only: prod.case sum.case fst_conv map_map row)
  then show ?thesis
    by (simp add: spec_paths_def f comp_def)
qed

lemma length_spec_path: "length (spec_path s rate sg dt zs) = length zs"
  by (induction zs arbitrary: s) simp_all


lemma length_spec_paths_row:
  "row \<in> set (spec_paths mt c) \<Longrightarrow> length row = nat (M c)"
  by (auto simp: spec_paths_def normal_draws_def length_spec_path)



lemma np_maximum_Fin: "np_maximum (Fin x) 0 = Fin (max x 0)"
  by (simp add: zero_double_def max_def)

lemma MCPayoff_valid:
  assumes "valid c"
  shows "fst (MCPayoff mt c g) = Inr (map Fin (arithmetic_payoffs mt c))"
proof -
  from assms obtain s k t rate sg where f:
    "S0 c = Fin s" "strike c = Fin k" "T c = Fin t" "r c = Fin rate" "sigma c = Fin sg"
    "0 \<le> s" "0 \<le> k" "0 < t" "0 \<le> rate" "0 \<le> sg" "0 < M c" "0 < simulations c"
    "time_unit c = Fin (t / real_of_int (M c))" "discount c = Fin (exp (- rate * t))"
    by (rule valid_reals)
  obtain g' where P: "price_path mt c g = (Inr (map (map Fin) (spec_paths mt c)), g')"
    using price_path_valid [OF assms, of mt g] by (metis prod.collapse)
  have avg: "np_mean (map Fin row) = Fin (arithmetic_avg (real_of_int (M c)) row)"
    if "row \<in> set (spec_paths mt c)" for row
  proof -
    have len: "length row = nat (M c)"
      using that by (rule length_spec_paths_row)
    then have "row \<noteq> []"
      using f by auto
    then show ?thesis
      using f len by (simp add: np_mean_Fin spec_mean_def arithmetic_avg_def)
  qed
  show ?thesis
    unfolding MCPayoff_def P
    by (simp add: avg f arithmetic_payoffs_def spec_payoff_def minus_double_def
        np_maximum_Fin [unfolded minus_double_def])
qed






lemma GeometricAsianOption_closed_form:
  assumes "valid c" "0 < val (S0 c)" "0 < val (strike c)" "0 < val (sigma c)"
  shows "GeometricAsianOption c = Inr (Fin (analytic_value c))"
proof -
  from assms(1) obtain s k t rate sg where f:
    "S0 c = Fin s" "strike c = Fin k" "T c = Fin t" "r c = Fin rate" "sigma c = Fin sg"
    "0 \<le> s" "0 \<le> k" "0 < t" "0 \<le> rate" "0 \<le> sg" "0 < M c" "0 < simulations c"
    "time_unit c = Fin (t / real_of_int (M c))" "discount c = Fin (exp (- rate * t))"
    by (rule valid_reals)
  define m where "m = real_of_int (M c)"
  have pos: "0 < s" "0 < k" "0 < sg" "0 < m"
    using assms f by (simp_all add: m_def)
  have sig_pos: "0 < spec_sigsqT sg t m"
    unfolding spec_sigsqT_def using pos f(8) by (intro divide_pos_pos mult_pos_pos) simp_all
  have A: "py_truediv (sigma c * sigma c * T c * of_pyint (M c + 1) * of_pyint (2 * M c + 1))
             (of_pyint (6 * M c * M c)) = Inr (Fin (spec_sigsqT sg t m))"
    using pos f(11)
    by (simp add: py_truediv_def of_pyint_def f(1-5) spec_sigsqT_def m_def power2_eq_square)
  have B: "py_truediv ((r c - Fin 0.5 * (sigma c * sigma c)) * T c * of_pyint (M c + 1))
             (of_pyint (2 * M c)) = Inr (Fin ((rate - 0.5 * sg\<^sup>2) * t * (m + 1) / (2 * m)))"
    using pos f(11)
    by (simp add: py_truediv_def of_pyint_def f(1-5) m_def power2_eq_square minus_double_def)
  have C: "py_truediv (S0 c) (strike c) = Inr (Fin (s / k))"
    using pos by (simp add: py_truediv_def f)
  have D: "np_log (Fin (s / k)) = Fin (ln (s / k))"
    "np_sqrt (Fin (spec_sigsqT sg t m)) = Fin (sqrt (spec_sigsqT sg t m))"
    using pos sig_pos by simp_all
  have nz: "sqrt (spec_sigsqT sg t m) \<noteq> 0"
    using sig_pos by simp
  have mu: "Fin 0.5 * Fin (spec_sigsqT sg t m) + Fin ((rate - 0.5 * sg\<^sup>2) * t * (m + 1) / (2 * m))
              = Fin (spec_muT rate sg t m)"
    by (simp add: spec_muT_def)
  have d1: "(np_log (Fin (s / k)) + (Fin (spec_muT rate sg t m) + Fin 0.5 * Fin (spec_sigsqT sg t m)))
              / np_sqrt (Fin (spec_sigsqT sg t m)) = Fin (spec_d1 s k rate sg t m)"
    unfolding D using nz by (simp add: spec_d1_def add.assoc)
  have d2: "Fin (spec_d1 s k rate sg t m) - np_sqrt (Fin (spec_sigsqT sg t m))
              = Fin (spec_d2 s k rate sg t m)"
    unfolding D by (simp add: spec_d2_def minus_double_def)
  have N: "Fin 0.5 * (1 + sp_erf (Fin x / np_sqrt (Fin 2))) = Fin (spec_N x)" for x
    by (simp add: spec_N_def one_double_def)
  have final: "discount c * (S0 c * np_exp (Fin (spec_muT rate sg t m))
                   * Fin (spec_N (spec_d1 s k rate sg t m))
                 - strike c * Fin (spec_N (spec_d2 s k rate sg t m)))
               = Fin (analytic_value c)"
    by (simp add: f(1-5,14) analytic_value_def spec_geometric_value_def minus_double_def
        flip: m_def)
  show ?thesis
    unfolding GeometricAsianOption_def A B C
    by (simp only: sum.case Let_def mu d1 d2 N final)
qed

text \<open>
  With a positive strike and a positive volatility the analytic price of a valid contract
  is a finite number, also for a zero initial price.
\<close>

lemma GeometricAsianOption_defined:
  assumes "valid c" "0 < val (strike c)" "0 < val (sigma c)"
  shows "\<exists>v. GeometricAsianOption c = Inr (Fin v)"
proof (cases "0 < val (S0 c)")
  case True
  then show ?thesis
    using GeometricAsianOption_closed_form [OF assms(1) True assms(2,3)] by blast
next
  case False
  from assms(1) obtain s k t rate sg where f:
    "S0 c = Fin s" "strike c = Fin k" "T c = Fin t" "r c = Fin rate" "sigma c = Fin sg"
    "0 \<le> s" "0 \<le> k" "0 < t" "0 \<le> rate" "0 \<le> sg" "0 < M c" "0 < simulations c"
    "time_unit c = Fin (t / real_of_int (M c))" "discount c = Fin (exp (- rate * t))"
    by (rule valid_reals)
  define m where "m = real_of_int (M c)"
  have s: "s = 0" and pos: "0 < k" "0 < sg" "0 < m"
    using False assms f by (simp_all add: m_def)
  have sig_pos: "0 < spec_sigsqT sg t m"
    unfolding spec_sigsqT_def using pos f(8) by (intro divide_pos_pos mult_pos_pos) simp_all
  have A: "py_truediv (sigma c * sigma c * T c * of_pyint (M c + 1) * of_pyint (2 * M c + 1))
             (of_pyint (6 * M c * M c)) = Inr (Fin (spec_sigsqT sg t m))"
    using pos f(11)
    by (simp add: py_truediv_def of_pyint_def f(1-5) spec_sigsqT_def m_def power2_eq_square)
  have B: "py_truediv ((r c - Fin 0.5 * (sigma c * sigma c)) * T c * of_pyint (M c + 1))
             (of_pyint (2 * M c)) = Inr (Fin ((rate - 0.5 * sg\<^sup>2) * t * (m + 1) / (2 * m)))"
    using pos f(11)
    by (simp add: py_truediv_def of_pyint_def f(1-5) m_def power2_eq_square minus_double_def)
  have C: "py_truediv (S0 c) (strike c) = Inr (Fin 0)"
    using pos by (simp add: py_truediv_def f s)
  have D: "np_sqrt (Fin (spec_sigsqT sg t m)) = Fin (sqrt (spec_sigsqT sg t m))"
    "0 < sqrt (spec_sigsqT sg t m)"
    using sig_pos by simp_all
  have d1: "(np_log (Fin 0) + (Fin 0.5 * Fin (spec_sigsqT sg t m)
              + Fin ((rate - 0.5 * sg\<^sup>2) * t * (m + 1) / (2 * m))
              + Fin 0.5 * Fin (spec_sigsqT sg t m)))
              / np_sqrt (Fin (spec_sigsqT sg t m)) = NInf"
    unfolding D using D(2) by simp
  have d2: "NInf - np_sqrt (Fin (spec_sigsqT sg t m)) = NInf"
    unfolding D by (simp add: minus_double_def)
  have N: "Fin 0.5 * (1 + sp_erf (NInf / np_sqrt (Fin 2))) = Fin 0"
    by (simp add: one_double_def)
  show ?thesis
    unfolding GeometricAsianOption_def A B C
    by (simp only: sum.case Let_def d1 d2 N) (simp add: f(1-5,14) minus_double_def)
qed



subsection \<open>The state of the generator\<close>

lemma price_path_any_state: "price_path mt c g = price_path mt c g'"
  by (simp add: price_path_def)

lemma MCPayoff_any_state: "MCPayoff mt c g = MCPayoff mt c g'"
  by (simp add: MCPayoff_def price_path_any_state [of mt c g g'])

lemma value_any_state: "value mt c g = value mt c g'"
  by (simp add: value_def MCPayoff_any_state [of mt c g g'])

lemma value_with_control_variate_any_state:
  "fst (value_with_control_variate mt c g) = fst (value_with_control_variate mt c g')"
  by (simp add: value_with_control_variate_def price_path_any_state [of mt c g g']
      split: sum.splits prod.splits)

subsection \<open>The example instances\<close>




text \<open>The docstring's call of the constructor builds \<open>doc_example\<close>.\<close>

lemma init_doc_example:
  "\<exists>d. init (PyStr ''call'') (PyFloat (Fin 4)) (PyFloat (Fin 4)) (PyFloat (Fin 1))
          (PyFloat (Fin 100)) (PyFloat (Fin 0.03)) (PyInt 0) (PyFloat (Fin 0.25)) (PyInt 10000)
        = ([], Inr d) \<and> instance_of d = Some doc_example"
  by (simp add: init_def try_suite_def no_attrs_def py_truediv_def of_pyint_def Let_def
      zero_double_def instance_of_def doc_example_def)


lemma zero_draws: "normal_draws (\<lambda>seed k. 0) 2 (Suc 0) = [[0], [0]]"
  by (simp add: normal_draws_def upt_rec)





lemma flat_put_arithmetic: "arithmetic_payoffs (\<lambda>seed k. 0) flat_put = [1, 1]"
  by (simp add: arithmetic_payoffs_def spec_paths_def flat_put_def zero_draws spec_payoff_def
      arithmetic_avg_def)

lemma flat_put_geometric_payoffs: "geometric_payoffs (\<lambda>seed k. 0) flat_put = [1, 1]"
  by (simp add: geometric_payoffs_def spec_paths_def flat_put_def zero_draws spec_payoff_def
      geometric_avg_def)


subsection \<open>Attributes a method does not read, and the entries of a path\<close>





section \<open>The plain estimator\<close>



section \<open>The control-variate estimator\<close>



section \<open>The analytic geometric price\<close>



section \<open>The path simulator\<close>



text \<open>
  Claim C5. \<open>price_path\<close> reseeds the generator before it draws, so its matrix does not
  depend on the state of the generator at the time of the access: any two accesses, and
  an access right after another, return the same matrix, and so the results of
  \<open>MCPayoff\<close>, \<open>value\<close> and \<open>value_with_control_variate\<close>, which access it again, do
  not depend on that state either.
\<close>

theorem price_path_reproducible:
  "fst (price_path mt c g) = fst (price_path mt c g')
   \<and> fst (price_path mt c (snd (price_path mt c g))) = fst (price_path mt c g)
   \<and> fst (MCPayoff mt c g) = fst (MCPayoff mt c g')
   \<and> fst (value mt c g) = fst (value mt c g')
   \<and> fst (value_with_control_variate mt c g) = fst (value_with_control_variate mt c g')"
  using price_path_any_state [of mt c g g']
    price_path_any_state [of mt c "snd (price_path mt c g)" g]
    MCPayoff_any_state [of mt c g g'] value_any_state [of mt c g g']
    value_with_control_variate_any_state [of mt c g g']
  by simp

section \<open>The option type and the analytic price\<close>



section \<open>The constructor\<close>

lemmas init_unfold = init_def try_suite_def no_attrs_def py_truediv_def of_pyint_def Let_def
      zero_double_def instance_of_def

lemma number_float: "is_number x \<Longrightarrow> \<exists>d. py_float x = Inr d \<and> is_Fin d"
  by (cases x) (simp_all add: of_pyint_def)

lemma number_int: "is_number x \<Longrightarrow> \<exists>i. py_int x = Inr i"
proof (cases x)
  case (PyFloat d)
  assume "is_number x"
  with PyFloat show ?thesis by (cases d) simp_all
qed simp_all

lemma number_lt0: "is_number x \<Longrightarrow> \<exists>b. py_lt0 x = Inr b"
  by (cases x) simp_all

lemma number_le0: "is_number x \<Longrightarrow> \<exists>b. py_le0 x = Inr b"
  by (cases x) simp_all

lemma py_or_Inr: "py_or (Inr b # bs) = (if b then Inr True else py_or bs)"
  by (cases b) simp_all



lemma init_numbers:
  assumes "is_number S0'" "is_number strike'" "is_number T'" "is_number M'" "is_number r'"
    "is_number div'" "is_number sigma'" "is_number simulations'" "is_str option_type'"
  shows "\<exists>v1 v2 v3 v4 v5 v6 v7 v8 b1 b2 b3 b5 b6 b7.
           py_float S0' = Inr v1 \<and> py_float strike' = Inr v2 \<and> py_float T' = Inr v3
           \<and> py_int M' = Inr v4 \<and> py_float r' = Inr v5 \<and> py_float div' = Inr v6
           \<and> py_float sigma' = Inr v7 \<and> py_int simulations' = Inr v8
           \<and> py_lt0 S0' = Inr b1 \<and> py_lt0 strike' = Inr b2 \<and> py_le0 T' = Inr b3
           \<and> py_lt0 r' = Inr b5 \<and> py_lt0 div' = Inr b6 \<and> py_lt0 sigma' = Inr b7
           \<and> init option_type' S0' strike' T' M' r' div' sigma' simulations'
               = (if option_type' \<noteq> PyStr ''call'' \<and> option_type' \<noteq> PyStr ''put''
                  then ([], Inl ValueError)
                  else if b1 \<or> b2 \<or> b3 \<or> b5 \<or> b6 \<or> b7 then ([], Inl ValueError)
                  else if v4 = 0 then ([], Inl ZeroDivisionError)
                  else ([], Inr \<lparr>d_option_type = Some option_type', d_S0 = Some v1,
                          d_strike = Some v2, d_T = Some v3, d_M = Some v4, d_r = Some v5,
                          d_div = Some v6, d_sigma = Some v7, d_simulations = Some v8,
                          d_time_unit = Some (v3 / of_pyint v4),
                          d_discount = Some (np_exp (- v5 * v3))\<rparr>))"
proof -
  obtain v1 v2 v3 v5 v6 v7 where fl: "py_float S0' = Inr v1" "py_float strike' = Inr v2"
      "py_float T' = Inr v3" "py_float r' = Inr v5" "py_float div' = Inr v6"
      "py_float sigma' = Inr v7"
    using assms number_float by metis
  obtain v4 v8 where it: "py_int M' = Inr v4" "py_int simulations' = Inr v8"
    using assms number_int by metis
  obtain b1 b2 b3 b5 b6 b7 where cmp: "py_lt0 S0' = Inr b1" "py_lt0 strike' = Inr b2"
      "py_le0 T' = Inr b3" "py_lt0 r' = Inr b5" "py_lt0 div' = Inr b6" "py_lt0 sigma' = Inr b7"
    using assms number_lt0 number_le0 by metis
  have "init option_type' S0' strike' T' M' r' div' sigma' simulations'
       = (if option_type' \<noteq> PyStr ''call'' \<and> option_type' \<noteq> PyStr ''put''
          then ([], Inl ValueError)
          else if b1 \<or> b2 \<or> b3 \<or> b5 \<or> b6 \<or> b7 then ([], Inl ValueError)
          else if v4 = 0 then ([], Inl ZeroDivisionError)
          else ([], Inr \<lparr>d_option_type = Some option_type', d_S0 = Some v1,
                  d_strike = Some v2, d_T = Some v3, d_M = Some v4, d_r = Some v5,
                  d_div = Some v6, d_sigma = Some v7, d_simulations = Some v8,
                  d_time_unit = Some (v3 / of_pyint v4),
                  d_discount = Some (np_exp (- v5 * v3))\<rparr>))"
    using assms(9)
    by (simp add: init_def try_suite_def no_attrs_def Let_def fl it cmp py_or_Inr py_truediv_def
        of_pyint_def)
  with fl it cmp show ?thesis
    by blast
qed

lemma number_bounds:
  assumes "is_number x" "py_float x = Inr v"
  shows "is_Fin v" "py_lt0 x = Inr False \<Longrightarrow> 0 \<le> val v" "py_le0 x = Inr False \<Longrightarrow> 0 < val v"
  using assms by (cases x; cases v; simp add: of_pyint_def zero_double_def)+

text \<open>
  On arguments within the bounds of the data model the constructor returns a valid
  contract.
\<close>

lemma init_valid:
  assumes "is_number S0'" "is_number strike'" "is_number T'" "is_number M'" "is_number r'"
    "is_number div'" "is_number sigma'" "is_number simulations'"
    and "option_type' = PyStr ''call'' \<or> option_type' = PyStr ''put''"
    and "py_lt0 S0' = Inr False" "py_lt0 strike' = Inr False" "py_le0 T' = Inr False"
      "py_lt0 r' = Inr False" "py_lt0 div' = Inr False" "py_lt0 sigma' = Inr False"
    and "py_int M' = Inr m" "0 < m" "py_int simulations' = Inr n" "0 < n"
  shows "\<exists>d c. init option_type' S0' strike' T' M' r' div' sigma' simulations' = ([], Inr d)
           \<and> instance_of d = Some c \<and> valid c"
proof -
  have s: "is_str option_type'"
    using assms(9) by auto
  from init_numbers [OF assms(1-8) s]
  obtain v1 v2 v3 v5 v6 v7 where fl: "py_float S0' = Inr v1" "py_float strike' = Inr v2"
      "py_float T' = Inr v3" "py_float r' = Inr v5" "py_float div' = Inr v6"
      "py_float sigma' = Inr v7"
    and i: "init option_type' S0' strike' T' M' r' div' sigma' simulations'
       = ([], Inr \<lparr>d_option_type = Some option_type', d_S0 = Some v1,
                  d_strike = Some v2, d_T = Some v3, d_M = Some m, d_r = Some v5,
                  d_div = Some v6, d_sigma = Some v7, d_simulations = Some n,
                  d_time_unit = Some (v3 / of_pyint m),
                  d_discount = Some (np_exp (- v5 * v3))\<rparr>)"
    using assms(9-19) by auto
  obtain ot where ot: "option_type' = PyStr ot" "ot = ''call'' \<or> ot = ''put''"
    using assms(9) by auto
  let ?c = "\<lparr>option_type = ot, S0 = v1, strike = v2, T = v3, M = m, r = v5,
                div_yield = v6, sigma = v7, simulations = n, time_unit = v3 / of_pyint m,
                discount = np_exp (- v5 * v3)\<rparr>"
  have "valid ?c"
    using ot(2) assms(17,19)
      number_bounds [OF assms(1) fl(1)] number_bounds [OF assms(2) fl(2)]
      number_bounds [OF assms(3) fl(3)] number_bounds [OF assms(5) fl(4)]
      number_bounds [OF assms(6) fl(5)] number_bounds [OF assms(7) fl(6)] assms(10-15)
    by (simp add: valid_def)
  moreover have "instance_of \<lparr>d_option_type = Some option_type', d_S0 = Some v1,
                  d_strike = Some v2, d_T = Some v3, d_M = Some m, d_r = Some v5,
                  d_div = Some v6, d_sigma = Some v7, d_simulations = Some n,
                  d_time_unit = Some (v3 / of_pyint m),
                  d_discount = Some (np_exp (- v5 * v3))\<rparr> = Some ?c"
    by (simp add: instance_of_def ot)
  ultimately show ?thesis
    using i by blast
qed

text \<open>The example instances are what the constructor returns.\<close>

lemma examples_constructed:
  "\<exists>d. init (PyStr ''call'') (PyInt 4) (PyInt 3) (PyInt 1) (PyInt 1) (PyInt 0) (PyInt 0)
          (PyInt 0) (PyInt 2) = ([], Inr d) \<and> instance_of d = Some flat_call"
  "\<exists>d. init (PyStr ''put'') (PyInt 2) (PyInt 3) (PyInt 1) (PyInt 1) (PyInt 0) (PyInt 0)
          (PyInt 0) (PyInt 2) = ([], Inr d) \<and> instance_of d = Some flat_put"
  "\<exists>d. init (PyStr ''call'') (PyFloat (Fin 4)) (PyFloat (Fin 4)) (PyFloat (Fin 1))
          (PyFloat (Fin 100)) (PyInt 0) (PyInt 0) (PyInt 0) (PyInt 10000)
        = ([], Inr d) \<and> instance_of d = Some at_the_money_flat"
  "\<exists>d. init (PyStr ''put'') (PyInt 1) (PyInt 9) (PyInt 2) (PyInt 2) (PyInt 0) (PyInt 0)
          (PyInt 1) (PyInt 2) = ([], Inr d) \<and> instance_of d = Some volatile_put"
  "\<exists>d. init (PyStr ''call'') (PyInt 1) (PyInt 3) (PyInt 2) (PyInt 2) (PyInt 0) (PyInt 0)
          (PyInt 1) (PyInt 2) = ([], Inr d) \<and> instance_of d = Some volatile_call"
  by (simp_all add: init_unfold flat_call_def flat_put_def at_the_money_flat_def
      volatile_put_def volatile_call_def)
















section \<open>Contracts the constructor accepts and the analytic price rejects\<close>

text \<open>
  Claim C9 fails on the code. The constructor accepts a zero strike, and
  \<open>GeometricAsianOption\<close> then divides by it: a \<open>ZeroDivisionError\<close>, which
  \<open>value_with_control_variate\<close> passes on.
\<close>

theorem GeometricAsianOption_zero_strike:
  "(\<exists>d. init (PyStr ''call'') (PyFloat (Fin 4)) (PyFloat (Fin 0)) (PyFloat (Fin 1))
          (PyFloat (Fin 100)) (PyFloat (Fin 0.03)) (PyInt 0) (PyFloat (Fin 0.25)) (PyInt 10000)
        = ([], Inr d) \<and> instance_of d = Some zero_strike)
   \<and> valid zero_strike
   \<and> GeometricAsianOption zero_strike = Inl ZeroDivisionError
   \<and> fst (value_with_control_variate mt zero_strike g) = Inl ZeroDivisionError"
proof -
  have v: "valid zero_strike"
    by (simp add: valid_def zero_strike_def of_pyint_def)
  have G: "GeometricAsianOption zero_strike = Inl ZeroDivisionError"
    by (simp add: GeometricAsianOption_def zero_strike_def py_truediv_def of_pyint_def)
  have w: "py_truediv 1 (of_pyint (M zero_strike)) = Inr (Fin (1 / 100))"
    by (simp add: py_truediv_def of_pyint_def zero_strike_def one_double_def)
  obtain g1 where P: "price_path mt zero_strike g
      = (Inr (map (map Fin) (spec_paths mt zero_strike)), g1)"
    using price_path_valid [OF v, of mt g] by (metis prod.collapse)
  obtain g2 where A: "MCPayoff mt zero_strike g1
      = (Inr (map Fin (arithmetic_payoffs mt zero_strike)), g2)"
    using MCPayoff_valid [OF v, of mt g1] by (metis prod.collapse)
  have CV: "fst (value_with_control_variate mt zero_strike g) = Inl ZeroDivisionError"
    by (simp only: value_with_control_variate_def w P A G prod.case sum.case Let_def fst_conv)
  have I: "\<exists>d. init (PyStr ''call'') (PyFloat (Fin 4)) (PyFloat (Fin 0)) (PyFloat (Fin 1))
          (PyFloat (Fin 100)) (PyFloat (Fin 0.03)) (PyInt 0) (PyFloat (Fin 0.25)) (PyInt 10000)
        = ([], Inr d) \<and> instance_of d = Some zero_strike"
    by (simp add: init_unfold zero_strike_def)
  show ?thesis
    using I v G CV by blast
qed

text \<open>
  With no volatility, no interest and the strike at the initial price, \<open>d1\<close> is
  \<open>0.0 / 0.0\<close> and the analytic price is NaN.
\<close>

lemma GeometricAsianOption_nan:
  "valid at_the_money_flat \<and> GeometricAsianOption at_the_money_flat = Inr NaN"
  by (simp add: valid_def GeometricAsianOption_def at_the_money_flat_def py_truediv_def
      of_pyint_def Let_def one_double_def minus_double_def)

section \<open>The width of the two confidence intervals\<close>























end
